theory Spec2Isabelle
  imports Main "HOL-Library.Finite_Map"
begin

section \<open>Go strings as byte lists\<close>

text \<open>
  A Go \<^verbatim>\<open>string\<close> is a sequence of bytes, and so is an Isabelle \<^typ>\<open>string\<close>.
  Byte comparisons such as \<^verbatim>\<open>'a' <= c && c <= 'z'\<close> are comparisons of the byte values.
\<close>

definition byte :: "char \<Rightarrow> nat" where
  "byte c = of_char c"

definition between :: "char \<Rightarrow> char \<Rightarrow> char \<Rightarrow> bool" where
  \<comment> \<open>\<^verbatim>\<open>lo <= c && c <= hi\<close>\<close>
  "between lo c hi = (byte lo \<le> byte c \<and> byte c \<le> byte hi)"

definition HasPrefix :: "string \<Rightarrow> string \<Rightarrow> bool" where
  \<comment> \<open>\<^verbatim>\<open>strings.HasPrefix(s, prefix)\<close>\<close>
  "HasPrefix s pre = (take (length pre) s = pre)"

definition HasSuffix :: "string \<Rightarrow> string \<Rightarrow> bool" where
  \<comment> \<open>\<^verbatim>\<open>strings.HasSuffix(s, suffix)\<close>\<close>
  "HasSuffix s suf = (length suf \<le> length s \<and> drop (length s - length suf) s = suf)"

fun IndexByte :: "string \<Rightarrow> char \<Rightarrow> nat option" where
  \<comment> \<open>\<^verbatim>\<open>strings.IndexByte(s, c)\<close>; \<open>None\<close> stands for the result \<^verbatim>\<open>-1\<close>\<close>
  "IndexByte [] c = None"
| "IndexByte (x # xs) c = (if x = c then Some 0 else map_option Suc (IndexByte xs c))"

definition LastIndexByte :: "string \<Rightarrow> char \<Rightarrow> nat option" where
  \<comment> \<open>\<^verbatim>\<open>strings.LastIndex(s, sep)\<close> for a separator of one byte\<close>
  "LastIndexByte s c =
     (case IndexByte (rev s) c of None \<Rightarrow> None | Some i \<Rightarrow> Some (length s - 1 - i))"

fun Index :: "string \<Rightarrow> string \<Rightarrow> nat option" where
  \<comment> \<open>\<^verbatim>\<open>strings.Index(s, substr)\<close>\<close>
  "Index [] sub = (if sub = [] then Some 0 else None)"
| "Index (x # xs) sub =
     (if HasPrefix (x # xs) sub then Some 0 else map_option Suc (Index xs sub))"

definition Count :: "string \<Rightarrow> char \<Rightarrow> nat" where
  \<comment> \<open>\<^verbatim>\<open>strings.Count(s, substr)\<close> for a substring of one byte\<close>
  "Count s c = length (filter (\<lambda>x. x = c) s)"

definition ToLower :: "string \<Rightarrow> string" where
  \<comment> \<open>\<^verbatim>\<open>strings.ToLower\<close> on ASCII text: the only caller passes a URL scheme, which
      \<open>getScheme\<close> restricts to ASCII letters, digits and \<^verbatim>\<open>+-.\<close>\<close>
  "ToLower s =
     map (\<lambda>c. if between CHR ''A'' c CHR ''Z'' then char_of (byte c + 32) else c) s"

section \<open>Package path\<close>

text \<open>
  \<^verbatim>\<open>path.Clean\<close> and \<^verbatim>\<open>path.Join\<close> belong to Go's standard library. The model follows
  their implementation: \<open>Clean\<close> reads the path from left to right and writes into a
  buffer \<open>out\<close>, whose length is the write index \<^verbatim>\<open>out.w\<close>; \<open>dotdot\<close> is the index in
  the buffer where backtracking over \<^verbatim>\<open>..\<close> must stop.
\<close>

function backtrack :: "string \<Rightarrow> nat \<Rightarrow> nat \<Rightarrow> nat" where
  \<comment> \<open>\<^verbatim>\<open>for out.w > dotdot && out.index(out.w) != '/' { out.w-- }\<close>\<close>
  "backtrack buf dotdot w =
     (if w > dotdot \<and> buf ! w \<noteq> CHR ''/'' then backtrack buf dotdot (w - 1) else w)"
  by pat_completeness auto
termination
  by (relation "measure (\<lambda>(buf, dotdot, w). w)") auto

declare backtrack.simps [simp del]

definition elem_end :: "string \<Rightarrow> bool" where
  \<comment> \<open>\<^verbatim>\<open>r == n || path[r] == '/'\<close> for the rest of the path from index \<open>r\<close>\<close>
  "elem_end rest = (case rest of [] \<Rightarrow> True | c # _ \<Rightarrow> c = CHR ''/'')"

function clean_loop :: "bool \<Rightarrow> string \<Rightarrow> string \<Rightarrow> nat \<Rightarrow> string" where
  "clean_loop rooted [] out dotdot = out"
| "clean_loop rooted (c # rest) out dotdot =
     (if c = CHR ''/'' then clean_loop rooted rest out dotdot
      else if c = CHR ''.'' \<and> elem_end rest then clean_loop rooted rest out dotdot
      else if c = CHR ''.'' \<and> hd rest = CHR ''.'' \<and> elem_end (tl rest) then
        (if length out > dotdot then
           clean_loop rooted (tl rest) (take (backtrack out dotdot (length out - 1)) out) dotdot
         else if \<not> rooted then
           (let out' = (if length out > 0 then out @ ''/'' else out) @ ''..''
            in clean_loop rooted (tl rest) out' (length out'))
         else clean_loop rooted (tl rest) out dotdot)
      else
        (let out' = (if rooted \<and> length out \<noteq> 1 \<or> \<not> rooted \<and> length out \<noteq> 0
                     then out @ ''/'' else out)
         in clean_loop rooted (dropWhile (\<lambda>x. x \<noteq> CHR ''/'') rest)
              (out' @ c # takeWhile (\<lambda>x. x \<noteq> CHR ''/'') rest) dotdot))"
  by pat_completeness auto
termination
proof (relation "measure (\<lambda>(rooted, p, out, dotdot). length p)")
  show "wf (measure (\<lambda>(rooted, p, out, dotdot). length p))" by simp
next
  fix rooted :: bool and c :: char and rest out :: string and dotdot :: nat and x :: string
  show "((rooted, dropWhile (\<lambda>x. x \<noteq> CHR ''/'') rest, x @ c # takeWhile (\<lambda>x. x \<noteq> CHR ''/'') rest, dotdot),
         (rooted, c # rest, out, dotdot)) \<in> measure (\<lambda>(rooted, p, out, dotdot). length p)"
    using length_dropWhile_le [of "\<lambda>x. x \<noteq> CHR ''/''" rest] by simp
qed (auto simp: elem_end_def split: list.splits)

definition Clean :: "string \<Rightarrow> string" where
  "Clean p =
     (if p = [] then ''.''
      else
        let rooted = (hd p = CHR ''/'');
            out = (if rooted then clean_loop True (tl p) ''/'' 1
                   else clean_loop False p [] 0)
        in if out = [] then ''.'' else out)"

definition Join :: "string \<Rightarrow> string \<Rightarrow> string" where
  \<comment> \<open>\<^verbatim>\<open>path.Join(elem...)\<close> for two elements: empty elements are ignored, the others are
      joined by a slash and the result is cleaned; all elements empty gives the empty string\<close>
  "Join a b =
     (if a = [] \<and> b = [] then []
      else if a = [] then Clean b
      else Clean (a @ ''/'' @ b))"

section \<open>Package net/url\<close>

text \<open>
  \<^verbatim>\<open>url.Parse\<close> and \<^verbatim>\<open>(*URL).String\<close> belong to Go's standard library as well. The
  model follows the implementation in \<^verbatim>\<open>net/url/url.go\<close>, function by function and
  under the same names. An error is a value; only the message of a formatted error
  that quotes its argument with \<^verbatim>\<open>%q\<close> is kept as the argument itself.

  The general theorems about \<open>Validate\<close> and \<open>sanitize\<close> use of \<open>Parse\<close> only that it
  returns an error or a URL. The model is evaluated where a statement names a concrete
  endpoint.
\<close>

datatype error =
    errorString string            \<comment> \<open>\<^verbatim>\<open>errors.New(msg)\<close> and \<^verbatim>\<open>fmt.Errorf\<close> with \<^verbatim>\<open>%s\<close>\<close>
  | EscapeError string            \<comment> \<open>\<^verbatim>\<open>url.EscapeError\<close>\<close>
  | InvalidHostError string       \<comment> \<open>\<^verbatim>\<open>url.InvalidHostError\<close>\<close>
  | invalidPort string            \<comment> \<open>\<^verbatim>\<open>fmt.Errorf("invalid port %q after host", colonPort)\<close>\<close>
  | urlError string string error  \<comment> \<open>\<^verbatim>\<open>&url.Error{Op, URL, Err}\<close>\<close>

datatype encoding =
    encodePath | encodePathSegment | encodeHost | encodeZone
  | encodeUserPassword | encodeQueryComponent | encodeFragment

record Userinfo =
  username :: string
  password :: string
  passwordSet :: bool

record URL =
  Scheme :: string
  Opaque :: string
  User :: "Userinfo option"
  Host :: string
  Path :: string
  RawPath :: string
  ForceQuery :: bool
  RawQuery :: string
  Fragment :: string
  RawFragment :: string

definition new_URL :: URL where
  \<comment> \<open>\<^verbatim>\<open>new(URL)\<close>: every field has its zero value\<close>
  "new_URL = \<lparr>Scheme = [], Opaque = [], User = None, Host = [], Path = [], RawPath = [],
     ForceQuery = False, RawQuery = [], Fragment = [], RawFragment = []\<rparr>"

definition ishex :: "char \<Rightarrow> bool" where
  "ishex c = (between CHR ''0'' c CHR ''9'' \<or> between CHR ''a'' c CHR ''f''
              \<or> between CHR ''A'' c CHR ''F'')"

definition unhex :: "char \<Rightarrow> nat" where
  "unhex c =
     (if between CHR ''0'' c CHR ''9'' then byte c - byte CHR ''0''
      else if between CHR ''a'' c CHR ''f'' then byte c - byte CHR ''a'' + 10
      else if between CHR ''A'' c CHR ''F'' then byte c - byte CHR ''A'' + 10
      else 0)"

definition upperhex :: string where
  "upperhex = ''0123456789ABCDEF''"

definition shouldEscape :: "char \<Rightarrow> encoding \<Rightarrow> bool" where
  "shouldEscape c mode =
     (if between CHR ''a'' c CHR ''z'' \<or> between CHR ''A'' c CHR ''Z''
         \<or> between CHR ''0'' c CHR ''9'' then False
      else if (mode = encodeHost \<or> mode = encodeZone) \<and> c \<in> set (''!$&()*+,;=:[]<>'' @ [CHR 0x27, CHR 0x22]) then False
      else if c \<in> set ''-_.~'' then False
      else if c \<in> set ''$&+,/:;=?@'' \<and> mode = encodePath then c = CHR ''?''
      else if c \<in> set ''$&+,/:;=?@'' \<and> mode = encodePathSegment then
        c = CHR ''/'' \<or> c = CHR '';'' \<or> c = CHR '','' \<or> c = CHR ''?''
      else if c \<in> set ''$&+,/:;=?@'' \<and> mode = encodeUserPassword then
        c = CHR ''@'' \<or> c = CHR ''/'' \<or> c = CHR ''?'' \<or> c = CHR '':''
      else if c \<in> set ''$&+,/:;=?@'' \<and> mode = encodeQueryComponent then True
      else if c \<in> set ''$&+,/:;=?@'' \<and> mode = encodeFragment then False
      else if mode = encodeFragment \<and> c \<in> set ''!()*'' then False
      else True)"

fun unescape_check :: "encoding \<Rightarrow> string \<Rightarrow> error option" where
  \<comment> \<open>the first loop of \<^verbatim>\<open>unescape\<close>: it checks that every \<^verbatim>\<open>%\<close> starts a well-formed escape\<close>
  "unescape_check mode [] = None"
| "unescape_check mode (c # rest) =
     (if c = CHR ''%'' then
        (case rest of
           a # b # rest' \<Rightarrow>
             if \<not> ishex a \<or> \<not> ishex b then Some (EscapeError (take 3 (c # rest)))
             else if mode = encodeHost \<and> unhex a < 8 \<and> [c, a, b] \<noteq> ''%25'' then
               Some (EscapeError [c, a, b])
             else if mode = encodeZone \<and> [c, a, b] \<noteq> ''%25''
                     \<and> char_of (16 * unhex a + unhex b) \<noteq> CHR '' ''
                     \<and> shouldEscape (char_of (16 * unhex a + unhex b)) encodeHost then
               Some (EscapeError [c, a, b])
             else unescape_check mode rest'
         | _ \<Rightarrow> Some (EscapeError (take 3 (c # rest))))
      else if c = CHR ''+'' then unescape_check mode rest
      else if (mode = encodeHost \<or> mode = encodeZone) \<and> byte c < 128
              \<and> shouldEscape c encodeHost then
        Some (InvalidHostError [c])
      else unescape_check mode rest)"

fun unescape_build :: "encoding \<Rightarrow> string \<Rightarrow> string" where
  \<comment> \<open>the second loop of \<^verbatim>\<open>unescape\<close>, on a string that passed the first one\<close>
  "unescape_build mode [] = []"
| "unescape_build mode (c # rest) =
     (if c = CHR ''%'' then
        (case rest of
           a # b # rest' \<Rightarrow> char_of (16 * unhex a + unhex b) # unescape_build mode rest'
         | _ \<Rightarrow> [])
      else if c = CHR ''+'' then
        (if mode = encodeQueryComponent then CHR '' '' else CHR ''+'') # unescape_build mode rest
      else c # unescape_build mode rest)"

definition unescape :: "string \<Rightarrow> encoding \<Rightarrow> error + string" where
  \<comment> \<open>The source returns \<open>s\<close> itself when it holds no \<^verbatim>\<open>%\<close> and no \<^verbatim>\<open>+\<close> to replace; the
      second loop copies such a string unchanged, so the shortcut is not a case of its own.\<close>
  "unescape s mode =
     (case unescape_check mode s of
        Some err \<Rightarrow> Inl err
      | None \<Rightarrow> Inr (unescape_build mode s))"

fun escape :: "string \<Rightarrow> encoding \<Rightarrow> string" where
  "escape [] mode = []"
| "escape (c # s) mode =
     (if c = CHR '' '' \<and> mode = encodeQueryComponent then CHR ''+'' # escape s mode
      else if shouldEscape c mode then
        CHR ''%'' # upperhex ! (byte c div 16) # upperhex ! (byte c mod 16) # escape s mode
      else c # escape s mode)"

definition validEncoded :: "string \<Rightarrow> encoding \<Rightarrow> bool" where
  "validEncoded s mode =
     list_all (\<lambda>c. c \<in> set (''!$&()*+,;=:@[]%'' @ [CHR 0x27]) \<or> \<not> shouldEscape c mode) s"

definition stringContainsCTLByte :: "string \<Rightarrow> bool" where
  "stringContainsCTLByte s = list_ex (\<lambda>b. byte b < 32 \<or> byte b = 127) s"

fun getScheme_from :: "string \<Rightarrow> nat \<Rightarrow> string \<Rightarrow> error + string \<times> string" where
  \<comment> \<open>the loop of \<^verbatim>\<open>getScheme\<close> at index \<open>i\<close>, with the bytes from \<open>i\<close> on as last argument\<close>
  "getScheme_from rawURL i [] = Inr ([], rawURL)"
| "getScheme_from rawURL i (c # rest) =
     (if between CHR ''a'' c CHR ''z'' \<or> between CHR ''A'' c CHR ''Z'' then
        getScheme_from rawURL (Suc i) rest
      else if between CHR ''0'' c CHR ''9'' \<or> c = CHR ''+'' \<or> c = CHR ''-'' \<or> c = CHR ''.'' then
        (if i = 0 then Inr ([], rawURL) else getScheme_from rawURL (Suc i) rest)
      else if c = CHR '':'' then
        (if i = 0 then Inl (errorString ''missing protocol scheme'')
         else Inr (take i rawURL, drop (Suc i) rawURL))
      else Inr ([], rawURL))"

definition getScheme :: "string \<Rightarrow> error + string \<times> string" where
  "getScheme rawURL = getScheme_from rawURL 0 rawURL"

definition split :: "string \<Rightarrow> char \<Rightarrow> bool \<Rightarrow> string \<times> string" where
  "split s sep cutc =
     (case IndexByte s sep of
        None \<Rightarrow> (s, [])
      | Some i \<Rightarrow> if cutc then (take i s, drop (Suc i) s) else (take i s, drop i s))"

definition validOptionalPort :: "string \<Rightarrow> bool" where
  "validOptionalPort port =
     (case port of
        [] \<Rightarrow> True
      | c # ds \<Rightarrow> c = CHR '':'' \<and> list_all (\<lambda>b. between CHR ''0'' b CHR ''9'') ds)"

definition validUserinfo :: "string \<Rightarrow> bool" where
  "validUserinfo s =
     list_all (\<lambda>r. between CHR ''A'' r CHR ''Z'' \<or> between CHR ''a'' r CHR ''z''
                   \<or> between CHR ''0'' r CHR ''9''
                   \<or> r \<in> set (''-._:~!$&()*+,;=%@'' @ [CHR 0x27])) s"

definition parseHost :: "string \<Rightarrow> error + string" where
  "parseHost host =
     (let plain = unescape host encodeHost
      in
      if HasPrefix host ''['' then
        (case LastIndexByte host CHR '']'' of
           None \<Rightarrow> Inl (errorString ''missing ']' in host'')
         | Some i \<Rightarrow>
             if \<not> validOptionalPort (drop (Suc i) host) then Inl (invalidPort (drop (Suc i) host))
             else
               (case Index (take i host) ''%25'' of
                  Some zone \<Rightarrow>
                    (case unescape (take zone host) encodeHost of
                       Inl err \<Rightarrow> Inl err
                     | Inr host1 \<Rightarrow>
                         (case unescape (drop zone (take i host)) encodeZone of
                            Inl err \<Rightarrow> Inl err
                          | Inr host2 \<Rightarrow>
                              (case unescape (drop i host) encodeHost of
                                 Inl err \<Rightarrow> Inl err
                               | Inr host3 \<Rightarrow> Inr (host1 @ host2 @ host3))))
                | None \<Rightarrow> plain))
      else
        (case LastIndexByte host CHR '':'' of
           Some i \<Rightarrow>
             if \<not> validOptionalPort (drop i host) then Inl (invalidPort (drop i host))
             else plain
         | None \<Rightarrow> plain))"

definition parseAuthority :: "string \<Rightarrow> error + Userinfo option \<times> string" where
  "parseAuthority authority =
     (case LastIndexByte authority CHR ''@'' of
        None \<Rightarrow>
          (case parseHost authority of
             Inl err \<Rightarrow> Inl err
           | Inr host \<Rightarrow> Inr (None, host))
      | Some i \<Rightarrow>
          (case parseHost (drop (Suc i) authority) of
             Inl err \<Rightarrow> Inl err
           | Inr host \<Rightarrow>
               let userinfo = take i authority in
               if \<not> validUserinfo userinfo then Inl (errorString ''net/url: invalid userinfo'')
               else if IndexByte userinfo CHR '':'' = None then
                 (case unescape userinfo encodeUserPassword of
                    Inl err \<Rightarrow> Inl err
                  | Inr name \<Rightarrow>
                      Inr (Some \<lparr>username = name, password = [], passwordSet = False\<rparr>, host))
               else
                 (case unescape (fst (split userinfo CHR '':'' True)) encodeUserPassword of
                    Inl err \<Rightarrow> Inl err
                  | Inr name \<Rightarrow>
                      (case unescape (snd (split userinfo CHR '':'' True)) encodeUserPassword of
                         Inl err \<Rightarrow> Inl err
                       | Inr pass \<Rightarrow>
                           Inr (Some \<lparr>username = name, password = pass, passwordSet = True\<rparr>,
                                host)))))"

definition setPath :: "URL \<Rightarrow> string \<Rightarrow> error + URL" where
  "setPath u p =
     (case unescape p encodePath of
        Inl err \<Rightarrow> Inl err
      | Inr path \<Rightarrow>
          Inr (u\<lparr>Path := path,
                 RawPath := (if p = escape path encodePath then [] else p)\<rparr>))"

definition setFragment :: "URL \<Rightarrow> string \<Rightarrow> error + URL" where
  "setFragment u f =
     (case unescape f encodeFragment of
        Inl err \<Rightarrow> Inl err
      | Inr frag \<Rightarrow>
          Inr (u\<lparr>Fragment := frag,
                 RawFragment := (if f = escape frag encodeFragment then [] else f)\<rparr>))"

definition parse :: "string \<Rightarrow> bool \<Rightarrow> error + URL" where
  "parse rawURL viaRequest =
     (if stringContainsCTLByte rawURL then
        Inl (errorString ''net/url: invalid control character in URL'')
      else if rawURL = [] \<and> viaRequest then Inl (errorString ''empty url'')
      else if rawURL = ''*'' then Inr (new_URL\<lparr>Path := ''*''\<rparr>)
      else
        (case getScheme rawURL of
           Inl err \<Rightarrow> Inl err
         | Inr (scheme, rest0) \<Rightarrow>
             let url0 = new_URL\<lparr>Scheme := ToLower scheme\<rparr>;
                 force = (HasSuffix rest0 ''?'' \<and> Count rest0 CHR ''?'' = 1);
                 rest1 = (if force then take (length rest0 - 1) rest0
                          else fst (split rest0 CHR ''?'' True));
                 url1 = (if force then url0\<lparr>ForceQuery := True\<rparr>
                         else url0\<lparr>RawQuery := snd (split rest0 CHR ''?'' True)\<rparr>)
             in
             if \<not> HasPrefix rest1 ''/'' \<and> Scheme url1 \<noteq> [] then Inr (url1\<lparr>Opaque := rest1\<rparr>)
             else if \<not> HasPrefix rest1 ''/'' \<and> viaRequest then
               Inl (errorString ''invalid URI for request'')
             else if \<not> HasPrefix rest1 ''/''
                     \<and> (case IndexByte rest1 CHR '':'' of
                          None \<Rightarrow> False
                        | Some colon \<Rightarrow>
                            (case IndexByte rest1 CHR ''/'' of
                               None \<Rightarrow> True
                             | Some slash \<Rightarrow> colon < slash)) then
               Inl (errorString ''first path segment in URL cannot contain colon'')
             else if (Scheme url1 \<noteq> [] \<or> \<not> viaRequest \<and> \<not> HasPrefix rest1 ''///'')
                     \<and> HasPrefix rest1 ''//'' then
               (case parseAuthority (fst (split (drop 2 rest1) CHR ''/'' False)) of
                  Inl err \<Rightarrow> Inl err
                | Inr (user, host) \<Rightarrow>
                    setPath (url1\<lparr>User := user, Host := host\<rparr>)
                      (snd (split (drop 2 rest1) CHR ''/'' False)))
             else setPath url1 rest1))"

definition Parse :: "string \<Rightarrow> error + URL" where
  \<comment> \<open>\<^verbatim>\<open>url.Parse(rawURL)\<close>: the fragment is cut off first and parsed last\<close>
  "Parse rawURL =
     (let u = fst (split rawURL CHR ''#'' True); frag = snd (split rawURL CHR ''#'' True)
      in case parse u False of
           Inl err \<Rightarrow> Inl (urlError ''parse'' u err)
         | Inr url \<Rightarrow>
             if frag = [] then Inr url
             else
               (case setFragment url frag of
                  Inl err \<Rightarrow> Inl (urlError ''parse'' rawURL err)
                | Inr url' \<Rightarrow> Inr url'))"

definition EscapedPath :: "URL \<Rightarrow> string" where
  "EscapedPath u =
     (if RawPath u \<noteq> [] \<and> validEncoded (RawPath u) encodePath
         \<and> unescape (RawPath u) encodePath = Inr (Path u) then RawPath u
      else if Path u = ''*'' then ''*''
      else escape (Path u) encodePath)"

definition EscapedFragment :: "URL \<Rightarrow> string" where
  "EscapedFragment u =
     (if RawFragment u \<noteq> [] \<and> validEncoded (RawFragment u) encodeFragment
         \<and> unescape (RawFragment u) encodeFragment = Inr (Fragment u) then RawFragment u
      else escape (Fragment u) encodeFragment)"

definition Userinfo_String :: "Userinfo \<Rightarrow> string" where
  "Userinfo_String ui =
     escape (username ui) encodeUserPassword
     @ (if passwordSet ui then '':'' @ escape (password ui) encodeUserPassword else [])"

definition URL_String :: "URL \<Rightarrow> string" where
  \<comment> \<open>\<^verbatim>\<open>(*URL).String()\<close>: the text of a URL; \<open>buf\<close> is the text written so far\<close>
  "URL_String u =
     (let buf0 = (if Scheme u \<noteq> [] then Scheme u @ '':'' else []);
          buf1 =
            (if Opaque u \<noteq> [] then buf0 @ Opaque u
             else
               let auth =
                     (if Scheme u \<noteq> [] \<or> Host u \<noteq> [] \<or> User u \<noteq> None then
                        (if Host u \<noteq> [] \<or> Path u \<noteq> [] \<or> User u \<noteq> None then ''//'' else [])
                        @ (case User u of None \<Rightarrow> [] | Some ui \<Rightarrow> Userinfo_String ui @ ''@'')
                        @ (if Host u \<noteq> [] then escape (Host u) encodeHost else [])
                      else []);
                   path = EscapedPath u;
                   buf2 = buf0 @ auth
                     @ (if path \<noteq> [] \<and> hd path \<noteq> CHR ''/'' \<and> Host u \<noteq> [] then ''/'' else []);
                   buf3 =
                     (if buf2 = []
                         \<and> (case IndexByte path CHR '':'' of
                              None \<Rightarrow> False
                            | Some i \<Rightarrow> IndexByte (take i path) CHR ''/'' = None)
                      then ''./'' else buf2)
               in buf3 @ path)
      in buf1
         @ (if ForceQuery u \<or> RawQuery u \<noteq> [] then ''?'' @ RawQuery u else [])
         @ (if Fragment u \<noteq> [] then ''#'' @ EscapedFragment u else []))"

section \<open>The exporter's configuration\<close>

text \<open>
  \<^verbatim>\<open>Config\<close> embeds the collector's HTTP client, queue and retry settings. Of those only
  \<^verbatim>\<open>Endpoint\<close> and \<^verbatim>\<open>Headers\<close> of \<^verbatim>\<open>confighttp.HTTPClientSettings\<close> are read or
  written here. A Go map may be \<^verbatim>\<open>nil\<close> (\<open>None\<close>); a \<^verbatim>\<open>*url.URL\<close> may be \<^verbatim>\<open>nil\<close> too.
\<close>

type_synonym gomap = "(string, string) fmap option"

record LogsConfig =
  LogParser :: string

record TracesConfig =
  UnixTimestamps :: bool

record Config =
  Endpoint :: string
  Headers :: gomap
  IngestToken :: string
  unstructuredEndpoint :: "URL option"
  structuredEndpoint :: "URL option"
  DisableCompression :: bool
  Tags :: gomap
  DisableServiceTag :: bool
  Logs :: LogsConfig
  Traces :: TracesConfig

definition basePath :: string where
  "basePath = ''api/v1/ingest/''"

definition unstructuredPath :: string where
  "unstructuredPath = basePath @ ''humio-unstructured''"

definition structuredPath :: string where
  "structuredPath = basePath @ ''humio-structured''"

definition lookup :: "gomap \<Rightarrow> string \<Rightarrow> string option" where
  \<comment> \<open>\<^verbatim>\<open>v, ok := m[k]\<close>: reading a \<^verbatim>\<open>nil\<close> map finds nothing\<close>
  "lookup m k = (case m of None \<Rightarrow> None | Some h \<Rightarrow> fmlookup h k)"

definition len :: "gomap \<Rightarrow> nat" where
  \<comment> \<open>\<^verbatim>\<open>len(m)\<close>: the length of a \<^verbatim>\<open>nil\<close> map is 0\<close>
  "len m = (case m of None \<Rightarrow> 0 | Some h \<Rightarrow> fcard (fmdom h))"

definition getEndpoint :: "Config \<Rightarrow> string \<Rightarrow> error + URL" where
  "getEndpoint c dest =
     (case Parse (Endpoint c) of
        Inl err \<Rightarrow> Inl err
      | Inr res \<Rightarrow> Inr (res\<lparr>Path := Join (Path res) dest\<rparr>))"

definition Validate :: "Config \<Rightarrow> error option" where
  \<comment> \<open>\<open>None\<close> is the result \<^verbatim>\<open>nil\<close>. The method only reads its receiver.\<close>
  "Validate c =
     (if IngestToken c = [] then Some (errorString ''requires an ingest_token'')
      else if Endpoint c = [] then Some (errorString ''requires an endpoint'')
      else if DisableServiceTag c \<and> len (Tags c) = 0 then
        Some (errorString ''requires at least one custom tag when disabling service tag'')
      else if isl (getEndpoint c unstructuredPath) then
        Some (errorString (''unable to create URL for unstructured ingest API, endpoint ''
                           @ Endpoint c @ '' is invalid''))
      else if (case lookup (Headers c) ''content-type'' of
                 Some contentType \<Rightarrow> contentType \<noteq> ''application/json'' | None \<Rightarrow> False) then
        Some (errorString
          ''the Content-Type must be application/json, which is also the default for this header'')
      else if lookup (Headers c) ''authorization'' \<noteq> None then
        Some (errorString
          ''the Authorization header must not be overwritten, since it is automatically generated from the ingest token'')
      else if (case lookup (Headers c) ''content-encoding'' of
                 Some enc \<Rightarrow> DisableCompression c \<or> enc \<noteq> ''gzip'' | None \<Rightarrow> False) then
        Some (errorString
          ''the Content-Encoding header must be gzip when using compression, and empty when compression is disabled'')
      else None)"

definition sanitize :: "Config \<Rightarrow> error option \<times> Config" where
  \<comment> \<open>The method mutates its receiver: the result is the returned error (\<open>None\<close> for
      \<^verbatim>\<open>nil\<close>) and the configuration as the call leaves it.\<close>
  "sanitize c =
     (case (getEndpoint c structuredPath, getEndpoint c unstructuredPath) of
        (Inr structured, Inr unstructured) \<Rightarrow>
          let c1 = c\<lparr>structuredEndpoint := Some structured\<rparr>;
              c2 = c1\<lparr>unstructuredEndpoint := Some unstructured\<rparr>;
              h3 = (case Headers c2 of None \<Rightarrow> fmempty | Some h \<Rightarrow> h);
              h4 = fmupd ''content-type'' ''application/json'' h3;
              h5 = fmupd ''authorization'' (''Bearer '' @ IngestToken c2) h4;
              h6 = (if \<not> DisableCompression c2 then fmupd ''content-encoding'' ''gzip'' h5 else h5);
              h7 = (if fmlookup h6 ''user-agent'' = None
                    then fmupd ''user-agent'' ''opentelemetry-collector-contrib Humio'' h6 else h6)
          in (None, c2\<lparr>Headers := Some h7\<rparr>)
      | _ \<Rightarrow> (Some (errorString (''badly formatted endpoint '' @ Endpoint c)), c))"

section \<open>The documented order of validation\<close>

text \<open>
  The specification lists seven invariants, checked in this order, each with the error
  it reports. \<open>first_violation\<close> is the specification's reading of \<open>Validate\<close>: the
  error of the earliest violated invariant of the list, and success when there is none.
\<close>

definition invariant_checks :: "((Config \<Rightarrow> bool) \<times> (Config \<Rightarrow> error)) list" where
  "invariant_checks =
     [(\<lambda>c. IngestToken c = [],
       \<lambda>c. errorString ''requires an ingest_token''),
      (\<lambda>c. Endpoint c = [],
       \<lambda>c. errorString ''requires an endpoint''),
      (\<lambda>c. DisableServiceTag c \<and> len (Tags c) = 0,
       \<lambda>c. errorString ''requires at least one custom tag when disabling service tag''),
      (\<lambda>c. isl (getEndpoint c unstructuredPath),
       \<lambda>c. errorString (''unable to create URL for unstructured ingest API, endpoint ''
                         @ Endpoint c @ '' is invalid'')),
      (\<lambda>c. lookup (Headers c) ''content-type'' \<noteq> None
            \<and> lookup (Headers c) ''content-type'' \<noteq> Some ''application/json'',
       \<lambda>c. errorString
         ''the Content-Type must be application/json, which is also the default for this header''),
      (\<lambda>c. lookup (Headers c) ''authorization'' \<noteq> None,
       \<lambda>c. errorString
         ''the Authorization header must not be overwritten, since it is automatically generated from the ingest token''),
      (\<lambda>c. lookup (Headers c) ''content-encoding'' \<noteq> None
            \<and> (DisableCompression c \<or> lookup (Headers c) ''content-encoding'' \<noteq> Some ''gzip''),
       \<lambda>c. errorString
         ''the Content-Encoding header must be gzip when using compression, and empty when compression is disabled'')]"

definition first_violation :: "Config \<Rightarrow> error option" where
  "first_violation c =
     (case find (\<lambda>(violated, err). violated c) invariant_checks of
        None \<Rightarrow> None
      | Some (violated, err) \<Rightarrow> Some (err c))"

section \<open>Auxiliary definitions\<close>

definition sanitized_headers :: "Config \<Rightarrow> (string, string) fmap" where
  \<comment> \<open>the header map that a successful \<open>sanitize\<close> leaves, see \<open>sanitize_succeeds\<close>\<close>
  "sanitized_headers c =
     (let h3 = (case Headers c of None \<Rightarrow> fmempty | Some h \<Rightarrow> h);
          h4 = fmupd ''content-type'' ''application/json'' h3;
          h5 = fmupd ''authorization'' (''Bearer '' @ IngestToken c) h4;
          h6 = (if \<not> DisableCompression c then fmupd ''content-encoding'' ''gzip'' h5 else h5)
      in if fmlookup h6 ''user-agent'' = None
         then fmupd ''user-agent'' ''opentelemetry-collector-contrib Humio'' h6 else h6)"







definition example_config :: Config where
  \<comment> \<open>a configuration in which only the ingest token and the endpoint are set\<close>
  "example_config =
     \<lparr>Endpoint = ''https://cloud.example.com'', Headers = None, IngestToken = ''abc123'',
      unstructuredEndpoint = None, structuredEndpoint = None, DisableCompression = False,
      Tags = None, DisableServiceTag = False,
      Logs = \<lparr>LogParser = []\<rparr>, Traces = \<lparr>UnixTimestamps = False\<rparr>\<rparr>"

section \<open>Facts about the endpoint helper and sanitize\<close>

lemma getEndpoint_isl: "isl (getEndpoint c dest) = isl (Parse (Endpoint c))"
  by (simp add: getEndpoint_def split: sum.splits)

lemma sanitize_fails:
  "isl (Parse (Endpoint c)) \<Longrightarrow>
   sanitize c = (Some (errorString (''badly formatted endpoint '' @ Endpoint c)), c)"
  by (cases "Parse (Endpoint c)") (simp_all add: sanitize_def getEndpoint_def)

lemma sanitize_succeeds:
  "Parse (Endpoint c) = Inr u \<Longrightarrow>
   sanitize c = (None, c\<lparr>structuredEndpoint := Some (u\<lparr>Path := Join (Path u) structuredPath\<rparr>),
                         unstructuredEndpoint := Some (u\<lparr>Path := Join (Path u) unstructuredPath\<rparr>),
                         Headers := Some (sanitized_headers c)\<rparr>)"
  by (simp add: sanitize_def getEndpoint_def sanitized_headers_def Let_def)

lemma sanitize_error_iff: "(fst (sanitize c) = None) = (\<not> isl (Parse (Endpoint c)))"
  by (cases "Parse (Endpoint c)") (simp_all add: sanitize_fails sanitize_succeeds)

lemma sanitized_headers_lookup:
  "fmlookup (sanitized_headers c) k =
     (if k = ''content-type'' then Some ''application/json''
      else if k = ''authorization'' then Some (''Bearer '' @ IngestToken c)
      else if k = ''content-encoding'' \<and> \<not> DisableCompression c then Some ''gzip''
      else if k = ''user-agent'' \<and> lookup (Headers c) ''user-agent'' = None
        then Some ''opentelemetry-collector-contrib Humio''
      else lookup (Headers c) k)"
  by (cases "Headers c") (simp_all add: sanitized_headers_def lookup_def Let_def)

lemma sanitized_headers_idem:
  "sanitized_headers (c\<lparr>structuredEndpoint := s, unstructuredEndpoint := t,
                    Headers := Some (sanitized_headers c)\<rparr>) = sanitized_headers c"
  apply (rule fmap_ext)
  apply (subst sanitized_headers_lookup)
  apply (simp add: lookup_def sanitized_headers_lookup)
  done

lemma Validate_first_violation: "Validate c = first_violation c"
  by (simp add: Validate_def first_violation_def invariant_checks_def split: option.splits)

text \<open>The parser on the endpoints that the claims name.\<close>

lemma Parse_cloud:
  "Parse ''https://cloud.example.com'' =
     Inr (new_URL\<lparr>Scheme := ''https'', Host := ''cloud.example.com''\<rparr>)"
  by code_simp


lemma Parse_empty: "Parse [] = Inr new_URL"
  by code_simp

lemma Parse_space_in_host: "isl (Parse ''https://cloud example.com'')"
  by code_simp

lemma ToLower_header_keys:
  "ToLower ''content-type'' = ''content-type''"
  "ToLower ''authorization'' = ''authorization''"
  "ToLower ''content-encoding'' = ''content-encoding''"
  "ToLower ''user-agent'' = ''user-agent''"
  by code_simp+






































lemma Parse_localhost:
  "Parse ''localhost:8080'' = Inr (new_URL\<lparr>Scheme := ''localhost'', Opaque := ''8080''\<rparr>)"
  by code_simp

section \<open>The claims\<close>

text \<open>
  Claim C1. \<open>Validate\<close> only reads the configuration (its result is a function of the
  configuration alone) and returns the error of the first violated invariant, in the
  documented order of the seven checks: it agrees with \<open>first_violation\<close>, it returns
  success exactly when no check is violated, and a violated check all of whose
  predecessors hold decides the error, whatever the later checks say.
\<close>

theorem Validate_reports_first_violation:
  "Validate c = first_violation c
   \<and> ((Validate c = None) = (\<forall>chk \<in> set invariant_checks. \<not> fst chk c))
   \<and> (\<forall>i < length invariant_checks.
        fst (invariant_checks ! i) c \<and> (\<forall>j < i. \<not> fst (invariant_checks ! j) c)
        \<longrightarrow> Validate c = Some (snd (invariant_checks ! i) c))"
proof (intro conjI allI impI)
  show eq: "Validate c = first_violation c" by (rule Validate_first_violation)
  show "(Validate c = None) = (\<forall>chk \<in> set invariant_checks. \<not> fst chk c)"
  proof (cases "find (\<lambda>(violated, err). violated c) invariant_checks")
    case None
    then have "\<forall>chk \<in> set invariant_checks. \<not> fst chk c"
      by (auto simp: find_None_iff)
    moreover from None have "first_violation c = None"
      by (simp add: first_violation_def)
    ultimately show ?thesis by (simp add: eq)
  next
    case (Some chk)
    then have "chk \<in> set invariant_checks \<and> fst chk c"
      by (auto simp: find_Some_iff case_prod_beta)
    moreover from Some have "first_violation c \<noteq> None"
      by (simp add: first_violation_def case_prod_beta)
    ultimately show ?thesis by (auto simp: eq)
  qed
  fix i
  assume i: "i < length invariant_checks"
    and v: "fst (invariant_checks ! i) c \<and> (\<forall>j < i. \<not> fst (invariant_checks ! j) c)"
  have "find (\<lambda>(violated, err). violated c) invariant_checks = Some (invariant_checks ! i)"
    unfolding find_Some_iff using i v by (auto simp: case_prod_beta)
  then show "Validate c = Some (snd (invariant_checks ! i) c)"
    unfolding eq first_violation_def by (simp add: case_prod_beta)
qed

theorem Validate_reports_first_violation_witness:
  "fst (invariant_checks ! 1) (example_config\<lparr>Endpoint := [], Headers := Some (fmupd ''authorization'' ''Bearer x'' fmempty)\<rparr>)
   \<and> fst (invariant_checks ! 5) (example_config\<lparr>Endpoint := [], Headers := Some (fmupd ''authorization'' ''Bearer x'' fmempty)\<rparr>)
   \<and> Validate (example_config\<lparr>Endpoint := [], Headers := Some (fmupd ''authorization'' ''Bearer x'' fmempty)\<rparr>)
       = Some (errorString ''requires an endpoint'')"
proof -
  let ?c = "example_config\<lparr>Endpoint := [], Headers := Some (fmupd ''authorization'' ''Bearer x'' fmempty)\<rparr>"
  have len: "1 < length invariant_checks" by (simp add: invariant_checks_def)
  have h1: "fst (invariant_checks ! 1) ?c \<and> (\<forall>j < 1. \<not> fst (invariant_checks ! j) ?c)"
    by (simp add: invariant_checks_def example_config_def)
  have h5: "fst (invariant_checks ! 5) ?c"
    by (simp add: invariant_checks_def lookup_def)
  have e: "snd (invariant_checks ! 1) ?c = errorString ''requires an endpoint''"
    by (simp add: invariant_checks_def)
  from Validate_reports_first_violation [of ?c] have "\<forall>i < length invariant_checks.
        fst (invariant_checks ! i) ?c \<and> (\<forall>j < i. \<not> fst (invariant_checks ! j) ?c)
        \<longrightarrow> Validate ?c = Some (snd (invariant_checks ! i) ?c)" by (rule conjunct2 [THEN conjunct2])
  with len h1 have "Validate ?c = Some (snd (invariant_checks ! 1) ?c)" by blast
  with e h1 h5 show ?thesis by simp
qed

text \<open>
  Claim C2. After a successful \<open>sanitize\<close> the header map exists, \<^verbatim>\<open>content-type\<close> is
  \<^verbatim>\<open>application/json\<close>, \<^verbatim>\<open>authorization\<close> is \<^verbatim>\<open>Bearer\<close> followed by the ingest token
  (whatever the headers held before), \<^verbatim>\<open>content-encoding\<close> is \<^verbatim>\<open>gzip\<close> when compression is
  not disabled, and a missing \<^verbatim>\<open>user-agent\<close> is set to the default identifying string; in
  particular for the token \<^verbatim>\<open>abc123\<close> with compression enabled.
\<close>

theorem sanitize_sets_required_headers:
  "fst (sanitize c) = None \<Longrightarrow>
   Headers (snd (sanitize c)) \<noteq> None
   \<and> lookup (Headers (snd (sanitize c))) ''content-type'' = Some ''application/json''
   \<and> lookup (Headers (snd (sanitize c))) ''authorization'' = Some (''Bearer '' @ IngestToken c)
   \<and> (\<not> DisableCompression c \<longrightarrow>
        lookup (Headers (snd (sanitize c))) ''content-encoding'' = Some ''gzip'')
   \<and> (lookup (Headers c) ''user-agent'' = None \<longrightarrow>
        lookup (Headers (snd (sanitize c))) ''user-agent''
          = Some ''opentelemetry-collector-contrib Humio'')
   \<and> (IngestToken c = ''abc123'' \<and> \<not> DisableCompression c \<longrightarrow>
        lookup (Headers (snd (sanitize c))) ''authorization'' = Some ''Bearer abc123''
        \<and> lookup (Headers (snd (sanitize c))) ''content-type'' = Some ''application/json''
        \<and> lookup (Headers (snd (sanitize c))) ''content-encoding'' = Some ''gzip'')"
proof -
  assume "fst (sanitize c) = None"
  then obtain u where "Parse (Endpoint c) = Inr u"
    by (cases "Parse (Endpoint c)") (simp_all add: sanitize_error_iff)
  then show ?thesis
    by (simp add: sanitize_succeeds lookup_def sanitized_headers_lookup)
qed

theorem sanitize_sets_required_headers_witness:
  "fst (sanitize (example_config\<lparr>Headers := Some (fmupd ''authorization'' ''Basic old'' fmempty)\<rparr>)) = None
   \<and> lookup (Headers (snd (sanitize (example_config\<lparr>Headers := Some (fmupd ''authorization'' ''Basic old'' fmempty)\<rparr>)))) ''authorization''
       = Some ''Bearer abc123''"
proof -
  let ?c = "example_config\<lparr>Headers := Some (fmupd ''authorization'' ''Basic old'' fmempty)\<rparr>"
  have h: "fst (sanitize ?c) = None" by code_simp
  have t: "IngestToken ?c = ''abc123'' \<and> \<not> DisableCompression ?c"
    by (simp add: example_config_def)
  from sanitize_sets_required_headers [OF h] t
  have "lookup (Headers (snd (sanitize ?c))) ''authorization'' = Some ''Bearer abc123''"
    by blast
  with h show ?thesis by (rule conjI)
qed

text \<open>
  Claim C3. \<open>sanitize\<close> is idempotent: after a first successful call a second call
  succeeds too and leaves both endpoints and the headers as the first call left them;
  no header key is removed by either call.
\<close>

theorem sanitize_idempotent:
  "fst (sanitize c) = None \<Longrightarrow>
   fst (sanitize (snd (sanitize c))) = None
   \<and> structuredEndpoint (snd (sanitize (snd (sanitize c)))) = structuredEndpoint (snd (sanitize c))
   \<and> unstructuredEndpoint (snd (sanitize (snd (sanitize c)))) = unstructuredEndpoint (snd (sanitize c))
   \<and> Headers (snd (sanitize (snd (sanitize c)))) = Headers (snd (sanitize c))
   \<and> (\<forall>k. lookup (Headers (snd (sanitize c))) k \<noteq> None \<longrightarrow>
           lookup (Headers (snd (sanitize (snd (sanitize c))))) k \<noteq> None)
   \<and> (\<forall>k. lookup (Headers c) k \<noteq> None \<longrightarrow> lookup (Headers (snd (sanitize c))) k \<noteq> None)"
proof -
  assume "fst (sanitize c) = None"
  then obtain u where u: "Parse (Endpoint c) = Inr u"
    by (cases "Parse (Endpoint c)") (simp_all add: sanitize_error_iff)
  let ?c' = "c\<lparr>structuredEndpoint := Some (u\<lparr>Path := Join (Path u) structuredPath\<rparr>),
               unstructuredEndpoint := Some (u\<lparr>Path := Join (Path u) unstructuredPath\<rparr>),
               Headers := Some (sanitized_headers c)\<rparr>"
  have first: "sanitize c = (None, ?c')" using u by (rule sanitize_succeeds)
  have "Parse (Endpoint ?c') = Inr u" using u by simp
  then have "sanitize ?c' = (None, ?c'\<lparr>structuredEndpoint := Some (u\<lparr>Path := Join (Path u) structuredPath\<rparr>),
               unstructuredEndpoint := Some (u\<lparr>Path := Join (Path u) unstructuredPath\<rparr>),
               Headers := Some (sanitized_headers ?c')\<rparr>)" by (rule sanitize_succeeds)
  then have second: "sanitize ?c' = (None, ?c')"
    by (simp add: sanitized_headers_idem)
  have keys: "\<forall>k. lookup (Headers c) k \<noteq> None \<longrightarrow> fmlookup (sanitized_headers c) k \<noteq> None"
    by (simp add: sanitized_headers_lookup)
  show ?thesis using keys by (simp add: first second lookup_def)
qed

theorem sanitize_idempotent_witness:
  "fst (sanitize example_config) = None
   \<and> Headers (snd (sanitize (snd (sanitize example_config)))) = Headers (snd (sanitize example_config))
   \<and> fst (sanitize (snd (sanitize example_config))) = None"
proof -
  have h: "fst (sanitize example_config) = None" by code_simp
  from sanitize_idempotent [OF h] h show ?thesis by blast
qed




text \<open>
  Claim C5. For a configuration that passes the first six checks, \<open>Validate\<close> fails if
  and only if the header \<^verbatim>\<open>content-encoding\<close> is present and compression is disabled or
  its value is not \<^verbatim>\<open>gzip\<close>; without that header it succeeds, whatever
  \<open>DisableCompression\<close> is.
\<close>

theorem Validate_content_encoding_check:
  assumes "IngestToken c \<noteq> []" and "Endpoint c \<noteq> []"
    and "\<not> (DisableServiceTag c \<and> len (Tags c) = 0)"
    and "\<not> isl (getEndpoint c unstructuredPath)"
    and "lookup (Headers c) ''content-type'' = None
         \<or> lookup (Headers c) ''content-type'' = Some ''application/json''"
    and "lookup (Headers c) ''authorization'' = None"
  shows "((Validate c \<noteq> None) =
            (lookup (Headers c) ''content-encoding'' \<noteq> None
             \<and> (DisableCompression c \<or> lookup (Headers c) ''content-encoding'' \<noteq> Some ''gzip'')))
         \<and> (lookup (Headers c) ''content-encoding'' = None \<longrightarrow> Validate c = None)"
  using assms by (auto simp: Validate_def split: option.splits)

theorem Validate_content_encoding_check_witness:
  "Validate (example_config\<lparr>DisableCompression := True\<rparr>) = None
   \<and> Validate (example_config\<lparr>DisableCompression := True,
        Headers := Some (fmupd ''content-encoding'' ''gzip'' fmempty)\<rparr>) \<noteq> None"
proof -
  let ?c = "example_config\<lparr>DisableCompression := True\<rparr>"
  let ?d = "example_config\<lparr>DisableCompression := True,
        Headers := Some (fmupd ''content-encoding'' ''gzip'' fmempty)\<rparr>"
  have p: "\<not> isl (Parse ''https://cloud.example.com'')" by (simp add: Parse_cloud)
  have c1: "IngestToken ?c \<noteq> []" "Endpoint ?c \<noteq> []"
    "\<not> (DisableServiceTag ?c \<and> len (Tags ?c) = 0)"
    "\<not> isl (getEndpoint ?c unstructuredPath)"
    "lookup (Headers ?c) ''content-type'' = None
         \<or> lookup (Headers ?c) ''content-type'' = Some ''application/json''"
    "lookup (Headers ?c) ''authorization'' = None"
    "lookup (Headers ?c) ''content-encoding'' = None"
    using p by (simp_all add: example_config_def lookup_def getEndpoint_isl)
  have d1: "IngestToken ?d \<noteq> []" "Endpoint ?d \<noteq> []"
    "\<not> (DisableServiceTag ?d \<and> len (Tags ?d) = 0)"
    "\<not> isl (getEndpoint ?d unstructuredPath)"
    "lookup (Headers ?d) ''content-type'' = None
         \<or> lookup (Headers ?d) ''content-type'' = Some ''application/json''"
    "lookup (Headers ?d) ''authorization'' = None"
    "lookup (Headers ?d) ''content-encoding'' \<noteq> None" "DisableCompression ?d"
    using p by (simp_all add: example_config_def lookup_def getEndpoint_isl)
  from Validate_content_encoding_check [OF c1(1-6)] c1(7) have a: "Validate ?c = None" by blast
  from Validate_content_encoding_check [OF d1(1-6)] d1(7,8) have b: "Validate ?d \<noteq> None" by blast
  from a b show ?thesis by (rule conjI)
qed

text \<open>
  Claim C6. The probe in \<open>Validate\<close> and the derivation in \<open>sanitize\<close> never diverge:
  the probe of the unstructured sub-path fails exactly when one of the two derivations
  fails, which is exactly when \<open>sanitize\<close> fails; and when the endpoint does not parse,
  \<open>Validate\<close> (with a token, a non-empty endpoint and the service-tag rule satisfied) and
  \<open>sanitize\<close> both return their endpoint error.
\<close>

theorem Validate_probe_agrees_with_sanitize:
  "(isl (getEndpoint c unstructuredPath)
      = (isl (getEndpoint c structuredPath) \<or> isl (getEndpoint c unstructuredPath)))
   \<and> (isl (getEndpoint c unstructuredPath) = (fst (sanitize c) \<noteq> None))
   \<and> (isl (Parse (Endpoint c)) \<and> IngestToken c \<noteq> [] \<and> Endpoint c \<noteq> []
        \<and> \<not> (DisableServiceTag c \<and> len (Tags c) = 0) \<longrightarrow>
        Validate c = Some (errorString
          (''unable to create URL for unstructured ingest API, endpoint ''
           @ Endpoint c @ '' is invalid''))
        \<and> fst (sanitize c) = Some (errorString (''badly formatted endpoint '' @ Endpoint c)))"
proof (intro conjI impI)
  show "isl (getEndpoint c unstructuredPath)
      = (isl (getEndpoint c structuredPath) \<or> isl (getEndpoint c unstructuredPath))"
    by (simp add: getEndpoint_isl)
  show "isl (getEndpoint c unstructuredPath) = (fst (sanitize c) \<noteq> None)"
    using sanitize_error_iff [of c] by (simp add: getEndpoint_isl)
next
  assume a: "isl (Parse (Endpoint c)) \<and> IngestToken c \<noteq> [] \<and> Endpoint c \<noteq> []
        \<and> \<not> (DisableServiceTag c \<and> len (Tags c) = 0)"
  then show "Validate c = Some (errorString
          (''unable to create URL for unstructured ingest API, endpoint ''
           @ Endpoint c @ '' is invalid''))"
    by (simp add: Validate_def getEndpoint_isl)
  from a show "fst (sanitize c) = Some (errorString (''badly formatted endpoint '' @ Endpoint c))"
    by (simp add: sanitize_fails)
qed

theorem Validate_probe_agrees_with_sanitize_witness:
  "isl (Parse (Endpoint (example_config\<lparr>Endpoint := ''https://cloud example.com''\<rparr>)))
   \<and> Validate (example_config\<lparr>Endpoint := ''https://cloud example.com''\<rparr>)
       = Some (errorString
          ''unable to create URL for unstructured ingest API, endpoint https://cloud example.com is invalid'')
   \<and> fst (sanitize (example_config\<lparr>Endpoint := ''https://cloud example.com''\<rparr>))
       = Some (errorString ''badly formatted endpoint https://cloud example.com'')"
proof -
  let ?c = "example_config\<lparr>Endpoint := ''https://cloud example.com''\<rparr>"
  have h: "isl (Parse (Endpoint ?c))" by (simp add: Parse_space_in_host)
  have g: "IngestToken ?c \<noteq> [] \<and> Endpoint ?c \<noteq> []
        \<and> \<not> (DisableServiceTag ?c \<and> len (Tags ?c) = 0)"
    by (simp add: example_config_def)
  from Validate_probe_agrees_with_sanitize [of ?c] h g
  have "Validate ?c = Some (errorString
          (''unable to create URL for unstructured ingest API, endpoint ''
           @ Endpoint ?c @ '' is invalid''))
        \<and> fst (sanitize ?c) = Some (errorString (''badly formatted endpoint '' @ Endpoint ?c))"
    by blast
  with h show ?thesis by simp
qed

text \<open>
  Claim C7. \<open>sanitize\<close> is atomic: when it returns an error it leaves the configuration
  as it was; no header is added or changed, a missing header map is not created, and
  the two derived endpoints keep their value (unset, if they were unset).
\<close>

theorem sanitize_failure_leaves_config_unchanged:
  "fst (sanitize c) \<noteq> None \<Longrightarrow>
   snd (sanitize c) = c
   \<and> Headers (snd (sanitize c)) = Headers c
   \<and> structuredEndpoint (snd (sanitize c)) = structuredEndpoint c
   \<and> unstructuredEndpoint (snd (sanitize c)) = unstructuredEndpoint c"
proof -
  assume "fst (sanitize c) \<noteq> None"
  then have "isl (Parse (Endpoint c))" by (simp add: sanitize_error_iff)
  then show ?thesis by (simp add: sanitize_fails)
qed

theorem sanitize_failure_leaves_config_unchanged_witness:
  "fst (sanitize (example_config\<lparr>Endpoint := ''https://cloud example.com''\<rparr>)) \<noteq> None
   \<and> Headers (snd (sanitize (example_config\<lparr>Endpoint := ''https://cloud example.com''\<rparr>))) = None
   \<and> structuredEndpoint (snd (sanitize (example_config\<lparr>Endpoint := ''https://cloud example.com''\<rparr>))) = None
   \<and> unstructuredEndpoint (snd (sanitize (example_config\<lparr>Endpoint := ''https://cloud example.com''\<rparr>))) = None"
proof -
  let ?c = "example_config\<lparr>Endpoint := ''https://cloud example.com''\<rparr>"
  have h: "fst (sanitize ?c) \<noteq> None"
    using Parse_space_in_host by (simp add: sanitize_error_iff)
  have z: "Headers ?c = None" "structuredEndpoint ?c = None" "unstructuredEndpoint ?c = None"
    by (simp_all add: example_config_def)
  from sanitize_failure_leaves_config_unchanged [OF h] have "Headers (snd (sanitize ?c)) = Headers ?c
   \<and> structuredEndpoint (snd (sanitize ?c)) = structuredEndpoint ?c
   \<and> unstructuredEndpoint (snd (sanitize ?c)) = unstructuredEndpoint ?c" by (rule conjunct2)
  with h z show ?thesis by simp
qed

text \<open>
  Claim C8, as stated, fails: \<open>sanitize\<close> does not remove a \<^verbatim>\<open>content-encoding\<close> entry
  that the configuration already has. With compression disabled and the header
  \<^verbatim>\<open>content-encoding: gzip\<close> set, \<open>sanitize\<close> succeeds and the entry is still there.
\<close>

theorem sanitize_content_encoding_counterexample:
  "DisableCompression (example_config\<lparr>DisableCompression := True,
       Headers := Some (fmupd ''content-encoding'' ''gzip'' fmempty)\<rparr>)
   \<and> fst (sanitize (example_config\<lparr>DisableCompression := True,
       Headers := Some (fmupd ''content-encoding'' ''gzip'' fmempty)\<rparr>)) = None
   \<and> lookup (Headers (snd (sanitize (example_config\<lparr>DisableCompression := True,
       Headers := Some (fmupd ''content-encoding'' ''gzip'' fmempty)\<rparr>)))) ''content-encoding''
       = Some ''gzip''"
  by code_simp

text \<open>
  Claim C8, amended. With compression disabled, a successful \<open>sanitize\<close> leaves the
  \<^verbatim>\<open>content-encoding\<close> entry as it found it: the entry is absent afterwards when it was
  absent before, in particular for every configuration that \<open>Validate\<close> accepts.
\<close>

theorem sanitize_keeps_content_encoding_entry:
  "DisableCompression c \<Longrightarrow> fst (sanitize c) = None \<Longrightarrow>
   lookup (Headers (snd (sanitize c))) ''content-encoding''
     = lookup (Headers c) ''content-encoding''
   \<and> (lookup (Headers c) ''content-encoding'' = None \<longrightarrow>
        lookup (Headers (snd (sanitize c))) ''content-encoding'' = None)
   \<and> (Validate c = None \<longrightarrow>
        lookup (Headers (snd (sanitize c))) ''content-encoding'' = None)"
proof -
  assume d: "DisableCompression c" and "fst (sanitize c) = None"
  then obtain u where u: "Parse (Endpoint c) = Inr u"
    by (cases "Parse (Endpoint c)") (simp_all add: sanitize_error_iff)
  have same: "lookup (Headers (snd (sanitize c))) ''content-encoding''
     = lookup (Headers c) ''content-encoding''"
    using d by (simp add: sanitize_succeeds [OF u] lookup_def sanitized_headers_lookup)
  have "Validate c = None \<longrightarrow> lookup (Headers c) ''content-encoding'' = None"
    using d by (auto simp: Validate_def split: if_splits option.splits)
  with same show ?thesis by simp
qed

theorem sanitize_keeps_content_encoding_entry_witness:
  "DisableCompression (example_config\<lparr>DisableCompression := True\<rparr>)
   \<and> fst (sanitize (example_config\<lparr>DisableCompression := True\<rparr>)) = None
   \<and> Validate (example_config\<lparr>DisableCompression := True\<rparr>) = None
   \<and> lookup (Headers (snd (sanitize (example_config\<lparr>DisableCompression := True\<rparr>))))
        ''content-encoding'' = None"
proof -
  let ?c = "example_config\<lparr>DisableCompression := True\<rparr>"
  have d: "DisableCompression ?c" by simp
  have s: "fst (sanitize ?c) = None"
    by (simp add: sanitize_error_iff example_config_def Parse_cloud)
  have v: "Validate ?c = None" by code_simp
  from sanitize_keeps_content_encoding_entry [OF d s] v
  have "lookup (Headers (snd (sanitize ?c))) ''content-encoding'' = None" by blast
  with d s v show ?thesis by blast
qed

text \<open>
  Claim C9. Header keys are matched by their exact lowercase names. A header check of
  \<open>Validate\<close> raises no error when the lowercase key is absent, whatever other
  capitalisations are present; with all three lowercase keys absent and the first four
  checks passed, \<open>Validate\<close> succeeds. A successful \<open>sanitize\<close> then adds the lowercase
  \<^verbatim>\<open>authorization\<close> and \<^verbatim>\<open>content-type\<close> entries and keeps the entry under the
  differently capitalised key with its value.
\<close>

theorem header_keys_case_sensitive:
  "(lookup (Headers c) ''content-type'' = None \<longrightarrow>
      Validate c \<noteq> Some (errorString
        ''the Content-Type must be application/json, which is also the default for this header''))
   \<and> (lookup (Headers c) ''authorization'' = None \<longrightarrow>
      Validate c \<noteq> Some (errorString
        ''the Authorization header must not be overwritten, since it is automatically generated from the ingest token''))
   \<and> (lookup (Headers c) ''content-encoding'' = None \<longrightarrow>
      Validate c \<noteq> Some (errorString
        ''the Content-Encoding header must be gzip when using compression, and empty when compression is disabled''))
   \<and> (lookup (Headers c) ''content-type'' = None \<and> lookup (Headers c) ''authorization'' = None
        \<and> lookup (Headers c) ''content-encoding'' = None
        \<and> IngestToken c \<noteq> [] \<and> Endpoint c \<noteq> []
        \<and> \<not> (DisableServiceTag c \<and> len (Tags c) = 0)
        \<and> \<not> isl (getEndpoint c unstructuredPath) \<longrightarrow> Validate c = None)
   \<and> (ToLower k \<in> {''authorization'', ''content-type'', ''content-encoding''} \<and> k \<noteq> ToLower k
        \<and> lookup (Headers c) k = Some v \<and> lookup (Headers c) (ToLower k) = None
        \<and> fst (sanitize c) = None \<longrightarrow>
        lookup (Headers (snd (sanitize c))) k = Some v
        \<and> lookup (Headers (snd (sanitize c))) ''authorization'' = Some (''Bearer '' @ IngestToken c)
        \<and> lookup (Headers (snd (sanitize c))) ''content-type'' = Some ''application/json'')"
proof (intro conjI impI)
  show "Validate c \<noteq> Some (errorString
        ''the Content-Type must be application/json, which is also the default for this header'')"
    if "lookup (Headers c) ''content-type'' = None"
    using that by (simp add: Validate_def)
  show "Validate c \<noteq> Some (errorString
        ''the Authorization header must not be overwritten, since it is automatically generated from the ingest token'')"
    if "lookup (Headers c) ''authorization'' = None"
    using that by (simp add: Validate_def)
  show "Validate c \<noteq> Some (errorString
        ''the Content-Encoding header must be gzip when using compression, and empty when compression is disabled'')"
    if "lookup (Headers c) ''content-encoding'' = None"
    using that by (simp add: Validate_def)
  show "Validate c = None"
    if "lookup (Headers c) ''content-type'' = None \<and> lookup (Headers c) ''authorization'' = None
        \<and> lookup (Headers c) ''content-encoding'' = None
        \<and> IngestToken c \<noteq> [] \<and> Endpoint c \<noteq> []
        \<and> \<not> (DisableServiceTag c \<and> len (Tags c) = 0)
        \<and> \<not> isl (getEndpoint c unstructuredPath)"
    using that by (simp add: Validate_def)
next
  assume a: "ToLower k \<in> {''authorization'', ''content-type'', ''content-encoding''} \<and> k \<noteq> ToLower k
        \<and> lookup (Headers c) k = Some v \<and> lookup (Headers c) (ToLower k) = None
        \<and> fst (sanitize c) = None"
  then obtain u where u: "Parse (Endpoint c) = Inr u"
    by (cases "Parse (Endpoint c)") (simp_all add: sanitize_error_iff)
  have other: "k \<noteq> ''content-type''" "k \<noteq> ''authorization''" "k \<noteq> ''content-encoding''"
    "k \<noteq> ''user-agent''"
    using a ToLower_header_keys by auto
  show "lookup (Headers (snd (sanitize c))) k = Some v"
    using a other by (simp add: sanitize_succeeds [OF u] lookup_def sanitized_headers_lookup)
  show "lookup (Headers (snd (sanitize c))) ''authorization'' = Some (''Bearer '' @ IngestToken c)"
    by (simp add: sanitize_succeeds [OF u] lookup_def sanitized_headers_lookup)
  show "lookup (Headers (snd (sanitize c))) ''content-type'' = Some ''application/json''"
    by (simp add: sanitize_succeeds [OF u] lookup_def sanitized_headers_lookup)
qed

theorem header_keys_case_sensitive_witness:
  "Validate (example_config\<lparr>Headers := Some (fmupd ''Authorization'' ''Basic dXNlcg=='' fmempty)\<rparr>) = None
   \<and> lookup (Headers (snd (sanitize (example_config\<lparr>Headers := Some (fmupd ''Authorization'' ''Basic dXNlcg=='' fmempty)\<rparr>)))) ''Authorization''
       = Some ''Basic dXNlcg==''
   \<and> lookup (Headers (snd (sanitize (example_config\<lparr>Headers := Some (fmupd ''Authorization'' ''Basic dXNlcg=='' fmempty)\<rparr>)))) ''authorization''
       = Some ''Bearer abc123''"
proof -
  let ?c = "example_config\<lparr>Headers := Some (fmupd ''Authorization'' ''Basic dXNlcg=='' fmempty)\<rparr>"
  have p: "\<not> isl (Parse ''https://cloud.example.com'')" by (simp add: Parse_cloud)
  have low: "ToLower ''Authorization'' = ''authorization''" by code_simp
  have h1: "lookup (Headers ?c) ''content-type'' = None \<and> lookup (Headers ?c) ''authorization'' = None
        \<and> lookup (Headers ?c) ''content-encoding'' = None
        \<and> IngestToken ?c \<noteq> [] \<and> Endpoint ?c \<noteq> []
        \<and> \<not> (DisableServiceTag ?c \<and> len (Tags ?c) = 0)
        \<and> \<not> isl (getEndpoint ?c unstructuredPath)"
    using p by (simp add: example_config_def lookup_def getEndpoint_isl)
  have h2: "ToLower ''Authorization'' \<in> {''authorization'', ''content-type'', ''content-encoding''}
        \<and> ''Authorization'' \<noteq> ToLower ''Authorization''
        \<and> lookup (Headers ?c) ''Authorization'' = Some ''Basic dXNlcg==''
        \<and> lookup (Headers ?c) (ToLower ''Authorization'') = None
        \<and> fst (sanitize ?c) = None"
    using p by (simp add: low lookup_def sanitize_error_iff example_config_def)
  have t: "IngestToken ?c = ''abc123''" by (simp add: example_config_def)
  note inst = header_keys_case_sensitive [of ?c "''Authorization''" "''Basic dXNlcg==''"]
  from inst h1 have a: "Validate ?c = None" by blast
  from inst h2 have b: "lookup (Headers (snd (sanitize ?c))) ''Authorization'' = Some ''Basic dXNlcg==''
        \<and> lookup (Headers (snd (sanitize ?c))) ''authorization'' = Some (''Bearer '' @ IngestToken ?c)"
    by blast
  from a b show ?thesis by (simp add: t)
qed

text \<open>
  Claim C10. \<open>sanitize\<close> validates nothing beyond the construction of the URLs. On an
  empty endpoint it succeeds and derives relative URLs without scheme or host, with the
  paths \<^verbatim>\<open>api/v1/ingest/humio-structured\<close> and \<^verbatim>\<open>api/v1/ingest/humio-unstructured\<close>. On an
  empty ingest token it succeeds whenever the endpoint parses, in particular on the
  empty endpoint, and sets \<^verbatim>\<open>authorization\<close> to \<^verbatim>\<open>Bearer\<close> followed by one space.
\<close>

theorem sanitize_accepts_empty_endpoint_and_token:
  "(Endpoint c = [] \<longrightarrow>
      fst (sanitize c) = None
      \<and> structuredEndpoint (snd (sanitize c))
          = Some \<lparr>Scheme = [], Opaque = [], User = None, Host = [],
                  Path = ''api/v1/ingest/humio-structured'', RawPath = [], ForceQuery = False,
                  RawQuery = [], Fragment = [], RawFragment = []\<rparr>
      \<and> unstructuredEndpoint (snd (sanitize c))
          = Some \<lparr>Scheme = [], Opaque = [], User = None, Host = [],
                  Path = ''api/v1/ingest/humio-unstructured'', RawPath = [], ForceQuery = False,
                  RawQuery = [], Fragment = [], RawFragment = []\<rparr>
      \<and> map_option URL_String (structuredEndpoint (snd (sanitize c)))
          = Some ''api/v1/ingest/humio-structured''
      \<and> map_option URL_String (unstructuredEndpoint (snd (sanitize c)))
          = Some ''api/v1/ingest/humio-unstructured'')
   \<and> (IngestToken c = [] \<and> \<not> isl (Parse (Endpoint c)) \<longrightarrow>
      fst (sanitize c) = None
      \<and> lookup (Headers (snd (sanitize c))) ''authorization'' = Some ''Bearer '')
   \<and> (IngestToken c = [] \<and> Endpoint c = [] \<longrightarrow>
      fst (sanitize c) = None
      \<and> lookup (Headers (snd (sanitize c))) ''authorization'' = Some ''Bearer '')"
proof (intro conjI impI)
  assume e: "Endpoint c = []"
  have p: "Parse (Endpoint c) = Inr new_URL" unfolding e by (rule Parse_empty)
  have s: "new_URL\<lparr>Path := Join (Path new_URL) structuredPath\<rparr>
             = \<lparr>Scheme = [], Opaque = [], User = None, Host = [],
                  Path = ''api/v1/ingest/humio-structured'', RawPath = [], ForceQuery = False,
                  RawQuery = [], Fragment = [], RawFragment = []\<rparr>" by code_simp
  have t: "new_URL\<lparr>Path := Join (Path new_URL) unstructuredPath\<rparr>
             = \<lparr>Scheme = [], Opaque = [], User = None, Host = [],
                  Path = ''api/v1/ingest/humio-unstructured'', RawPath = [], ForceQuery = False,
                  RawQuery = [], Fragment = [], RawFragment = []\<rparr>" by code_simp
  have ss: "URL_String (new_URL\<lparr>Path := Join (Path new_URL) structuredPath\<rparr>)
             = ''api/v1/ingest/humio-structured''" by code_simp
  have ts: "URL_String (new_URL\<lparr>Path := Join (Path new_URL) unstructuredPath\<rparr>)
             = ''api/v1/ingest/humio-unstructured''" by code_simp
  show "fst (sanitize c) = None" by (simp add: sanitize_succeeds [OF p])
  show "structuredEndpoint (snd (sanitize c))
          = Some \<lparr>Scheme = [], Opaque = [], User = None, Host = [],
                  Path = ''api/v1/ingest/humio-structured'', RawPath = [], ForceQuery = False,
                  RawQuery = [], Fragment = [], RawFragment = []\<rparr>"
    using s by (simp add: sanitize_succeeds [OF p])
  show "unstructuredEndpoint (snd (sanitize c))
          = Some \<lparr>Scheme = [], Opaque = [], User = None, Host = [],
                  Path = ''api/v1/ingest/humio-unstructured'', RawPath = [], ForceQuery = False,
                  RawQuery = [], Fragment = [], RawFragment = []\<rparr>"
    using t by (simp add: sanitize_succeeds [OF p])
  show "map_option URL_String (structuredEndpoint (snd (sanitize c)))
          = Some ''api/v1/ingest/humio-structured''"
    using ss by (simp add: sanitize_succeeds [OF p])
  show "map_option URL_String (unstructuredEndpoint (snd (sanitize c)))
          = Some ''api/v1/ingest/humio-unstructured''"
    using ts by (simp add: sanitize_succeeds [OF p])
next
  assume a: "IngestToken c = [] \<and> \<not> isl (Parse (Endpoint c))"
  then obtain u where u: "Parse (Endpoint c) = Inr u"
    by (cases "Parse (Endpoint c)") simp_all
  show "fst (sanitize c) = None" by (simp add: sanitize_succeeds [OF u])
  show "lookup (Headers (snd (sanitize c))) ''authorization'' = Some ''Bearer ''"
    using a by (simp add: sanitize_succeeds [OF u] lookup_def sanitized_headers_lookup)
next
  assume a: "IngestToken c = [] \<and> Endpoint c = []"
  then have u: "Parse (Endpoint c) = Inr new_URL" by (simp add: Parse_empty)
  show "fst (sanitize c) = None" by (simp add: sanitize_succeeds [OF u])
  show "lookup (Headers (snd (sanitize c))) ''authorization'' = Some ''Bearer ''"
    using a by (simp add: sanitize_succeeds [OF u] lookup_def sanitized_headers_lookup)
qed

theorem sanitize_accepts_empty_endpoint_and_token_witness:
  "Endpoint (example_config\<lparr>Endpoint := [], IngestToken := []\<rparr>) = []
   \<and> IngestToken (example_config\<lparr>Endpoint := [], IngestToken := []\<rparr>) = []
   \<and> fst (sanitize (example_config\<lparr>Endpoint := [], IngestToken := []\<rparr>)) = None
   \<and> map_option Path (structuredEndpoint (snd (sanitize (example_config\<lparr>Endpoint := [], IngestToken := []\<rparr>))))
       = Some ''api/v1/ingest/humio-structured''
   \<and> map_option Host (structuredEndpoint (snd (sanitize (example_config\<lparr>Endpoint := [], IngestToken := []\<rparr>))))
       = Some []
   \<and> lookup (Headers (snd (sanitize (example_config\<lparr>Endpoint := [], IngestToken := []\<rparr>)))) ''authorization''
       = Some ''Bearer ''"
proof -
  let ?c = "example_config\<lparr>Endpoint := [], IngestToken := []\<rparr>"
  have e: "Endpoint ?c = []" and t: "IngestToken ?c = []" by simp_all
  note inst = sanitize_accepts_empty_endpoint_and_token [of ?c]
  from inst e have a: "fst (sanitize ?c) = None
      \<and> structuredEndpoint (snd (sanitize ?c))
          = Some \<lparr>Scheme = [], Opaque = [], User = None, Host = [],
                  Path = ''api/v1/ingest/humio-structured'', RawPath = [], ForceQuery = False,
                  RawQuery = [], Fragment = [], RawFragment = []\<rparr>" by blast
  from inst e t have b: "lookup (Headers (snd (sanitize ?c))) ''authorization'' = Some ''Bearer ''"
    by blast
  from a b e t show ?thesis by simp
qed

end
